theory Spec2Isabelle
  imports Complex_Main "HOL-Library.Multiset"
begin

section \<open>Configuration (app/config.py)\<close>

text \<open>
  \<^verbatim>\<open>Settings\<close> holds the remote base URL, the row limit of one upload, the
  concurrency ceiling and the per-call timeout. Every function below that reads
  \<^verbatim>\<open>settings\<close> takes the record as its first argument.
\<close>

record Settings =
  HOSPITAL_API_BASE :: string
  MAX_CSV_ROWS :: int
  CONCURRENCY :: int
  HTTP_TIMEOUT :: int

definition settings :: Settings where
  "settings = \<lparr> HOSPITAL_API_BASE = ''https://hospital-directory.onrender.com'',
                MAX_CSV_ROWS = 20, CONCURRENCY = 5, HTTP_TIMEOUT = 10 \<rparr>"

section \<open>Batch registry (app/storage.py)\<close>

text \<open>
  The module-level dictionary \<^verbatim>\<open>_batches\<close> is passed explicitly. Each operation
  runs under \<^verbatim>\<open>_lock\<close> from its first to its last statement, so it is one atomic
  step on the dictionary: it takes the dictionary and returns its result together with
  the dictionary afterwards (the readers return the result only). The stored identifiers
  are whatever the caller hands over, hence the type variable.
\<close>

type_synonym 'a batches = "string \<rightharpoonup> 'a list"

definition save_batch :: "string \<Rightarrow> 'a list \<Rightarrow> 'a batches \<Rightarrow> 'a batches" where
  "save_batch batch_id hospital_ids b = b(batch_id \<mapsto> hospital_ids)"

definition get_batch :: "string \<Rightarrow> 'a batches \<Rightarrow> 'a list option" where
  "get_batch batch_id b = b batch_id"

definition get_all_batches :: "'a batches \<Rightarrow> 'a batches" where
  "get_all_batches b = b"

definition remove_batch :: "string \<Rightarrow> 'a batches \<Rightarrow> bool \<times> 'a batches" where
  "remove_batch batch_id b =
     (if b batch_id \<noteq> None then (True, b(batch_id := None)) else (False, b))"

section \<open>Response models (app/schemas.py)\<close>

text \<open>
  A decoded JSON document. An object is the list of the items of the Python dictionary it
  decodes to, so its keys are distinct and \<open>map_of\<close> is the dictionary's lookup. A
  number with a fraction or an exponent is read as a real.
\<close>

datatype json_value =
    JNull
  | JBool bool
  | JInt int
  | JFloat real
  | JString string
  | JArray "json_value list"
  | JObject "(string \<times> json_value) list"

record HospitalResult =
  row :: int
  hospital_id :: "json_value option"
  name :: string
  status :: string
  error :: "string option"

record BulkResponse =
  batch_id :: string
  total_hospitals :: int
  processed_hospitals :: int
  failed_hospitals :: int
  processing_time_seconds :: real
  batch_activated :: bool
  hospitals :: "HospitalResult list"

section \<open>Python strings\<close>

text \<open>
  A \<^verbatim>\<open>str\<close> is modelled by its UTF-8 encoding: a \<open>string\<close> of bytes, in which a code
  point up to U+007F is one byte and any other is a lead byte followed by one to three
  continuation bytes. Emptiness, equality, concatenation and the test for a suffix are
  then those of the byte strings. \<open>code_points\<close> cuts the encoding into its code
  points.
\<close>

definition utf8_width :: "char \<Rightarrow> nat" where
  "utf8_width c =
     (let n = (of_char c :: nat)
      in if n < 192 then 1 else if n < 224 then 2 else if n < 240 then 3 else 4)"

function code_points :: "string \<Rightarrow> string list" where
  "code_points [] = []"
| "code_points (c # cs) =
     (c # take (utf8_width c - 1) cs) # code_points (drop (utf8_width c - 1) cs)"
  by pat_completeness auto
termination
  by (relation "measure length") auto

text \<open>
  The code points for which \<^verbatim>\<open>str.isspace\<close> holds: U+0009 to U+000D, U+001C to
  U+0020, U+0085, U+00A0, U+1680, U+2000 to U+200A, U+2028, U+2029, U+202F, U+205F and
  U+3000, each in its encoding. \<^verbatim>\<open>str.strip()\<close> removes them from both ends.
\<close>

definition whitespace :: "string list" where
  "whitespace =
     [[CHR 0x09], [CHR 0x0A], [CHR 0x0B], [CHR 0x0C], [CHR 0x0D],
      [CHR 0x1C], [CHR 0x1D], [CHR 0x1E], [CHR 0x1F], [CHR 0x20],
      [CHR 0xC2, CHR 0x85], [CHR 0xC2, CHR 0xA0],
      [CHR 0xE1, CHR 0x9A, CHR 0x80],
      [CHR 0xE2, CHR 0x80, CHR 0x80], [CHR 0xE2, CHR 0x80, CHR 0x81],
      [CHR 0xE2, CHR 0x80, CHR 0x82], [CHR 0xE2, CHR 0x80, CHR 0x83],
      [CHR 0xE2, CHR 0x80, CHR 0x84], [CHR 0xE2, CHR 0x80, CHR 0x85],
      [CHR 0xE2, CHR 0x80, CHR 0x86], [CHR 0xE2, CHR 0x80, CHR 0x87],
      [CHR 0xE2, CHR 0x80, CHR 0x88], [CHR 0xE2, CHR 0x80, CHR 0x89],
      [CHR 0xE2, CHR 0x80, CHR 0x8A],
      [CHR 0xE2, CHR 0x80, CHR 0xA8], [CHR 0xE2, CHR 0x80, CHR 0xA9],
      [CHR 0xE2, CHR 0x80, CHR 0xAF], [CHR 0xE2, CHR 0x81, CHR 0x9F],
      [CHR 0xE3, CHR 0x80, CHR 0x80]]"

definition py_isspace :: "string \<Rightarrow> bool" where
  "py_isspace cp = (cp \<in> set whitespace)"

definition py_strip :: "string \<Rightarrow> string" where
  "py_strip s =
     concat (rev (dropWhile py_isspace (rev (dropWhile py_isspace (code_points s)))))"

text \<open>
  \<^verbatim>\<open>str.lower()\<close> on the code points up to U+00FF: the capitals A to Z, and U+00C0 to
  U+00DE without the multiplication sign U+00D7, whose encoding is the lead byte 0xC3
  and a second byte from 0x80 to 0x9E. A code point beyond U+00FF is left as it is.
  Python lowers further letters; the source compares the lowered text only with
  \<^verbatim>\<open>name\<close> and with the suffix \<^verbatim>\<open>.csv\<close>, and no code point beyond U+00FF has a
  lower-case form that contains one of their characters, so both comparisons have the
  outcome they have in Python.
\<close>

definition py_lower_code_point :: "string \<Rightarrow> string" where
  "py_lower_code_point cp =
     (case cp of
        [c] \<Rightarrow>
          (let n = (of_char c :: nat)
           in if 65 \<le> n \<and> n \<le> 90 then [char_of (n + 32)] else cp)
      | [l, c] \<Rightarrow>
          (let n = (of_char c :: nat)
           in if l = CHR 0xC3 \<and> 128 \<le> n \<and> n \<le> 158 \<and> n \<noteq> 151
              then [l, char_of (n + 32)] else cp)
      | _ \<Rightarrow> cp)"

definition py_lower :: "string \<Rightarrow> string" where
  "py_lower s = concat (map py_lower_code_point (code_points s))"

definition py_endswith :: "string \<Rightarrow> string \<Rightarrow> bool" where
  "py_endswith s suffix =
     (length suffix \<le> length s \<and> drop (length s - length suffix) s = suffix)"

text \<open>\<^verbatim>\<open>str(n)\<close> of an integer, as an f-string formats it.\<close>

fun str_nat :: "nat \<Rightarrow> string" where
  "str_nat n =
     (if n < 10 then [''0123456789'' ! n]
      else str_nat (n div 10) @ [''0123456789'' ! (n mod 10)])"

declare str_nat.simps [simp del]

definition str_int :: "int \<Rightarrow> string" where
  "str_int i = (if i < 0 then CHR ''-'' # str_nat (nat (- i)) else str_nat (nat i))"

section \<open>Exceptions\<close>

text \<open>
  \<open>HTTPException code detail\<close> is FastAPI's exception; \<open>Exception msg\<close> is any
  other raised exception \<^verbatim>\<open>e\<close>, with \<^verbatim>\<open>str(e) = msg\<close>.
\<close>

datatype exn = HTTPException int string | Exception string

section \<open>Tabular parser (app/processor.py, parse_csv_bytes)\<close>

text \<open>The dictionary built for one retained record, with its three keys.\<close>

record csv_row =
  row_name :: string
  row_address :: string
  row_phone :: "string option"

type_synonym bytes = "char list"

text \<open>
  \<^verbatim>\<open>bytes.decode\<close> and \<^verbatim>\<open>csv.reader\<close> belong to the Python library, not to the
  repository: they are parameters. Each returns its value or raises. The text decoded
  from valid bytes is those bytes without the byte order mark.
\<close>

record pylib =
  decode_utf_8_sig :: "bytes \<Rightarrow> exn + string"
  csv_reader :: "string \<Rightarrow> exn + string list list"

text \<open>Line 21-22: the header test and \<^verbatim>\<open>rows = rows[1:]\<close>.\<close>

definition is_header :: "string list list \<Rightarrow> bool" where
  "is_header rows =
     (case rows of
        [] \<Rightarrow> False
      | r # _ \<Rightarrow> (case r of [] \<Rightarrow> False | c # _ \<Rightarrow> py_lower (py_strip c) = ''name''))"

definition drop_header :: "string list list \<Rightarrow> string list list" where
  "drop_header rows = (if is_header rows then tl rows else rows)"

text \<open>Line 27: \<^verbatim>\<open>not row or all(not c.strip() for c in row)\<close>.\<close>

definition is_blank :: "string list \<Rightarrow> bool" where
  "is_blank r = (r = [] \<or> list_all (\<lambda>c. py_strip c = []) r)"

text \<open>Lines 29-32: the dictionary of one record.\<close>

definition to_row :: "string list \<Rightarrow> csv_row" where
  "to_row r =
     \<lparr> row_name = (if length r > 0 then py_strip (r ! 0) else []),
       row_address = (if length r > 1 then py_strip (r ! 1) else []),
       row_phone = (if length r > 2 then Some (py_strip (r ! 2)) else None) \<rparr>"

text \<open>Lines 24-33: the loop over the records, \<^verbatim>\<open>continue\<close> on a blank one.\<close>

fun parse_loop :: "string list list \<Rightarrow> csv_row list \<Rightarrow> csv_row list" where
  "parse_loop [] parsed = parsed"
| "parse_loop (r # rows) parsed =
     (if is_blank r then parse_loop rows parsed
      else parse_loop rows (parsed @ [to_row r]))"

definition parse_records :: "string list list \<Rightarrow> csv_row list" where
  "parse_records rows = parse_loop (drop_header rows) []"

definition parse_csv_bytes :: "pylib \<Rightarrow> bytes \<Rightarrow> exn + csv_row list" where
  "parse_csv_bytes lib file_bytes =
     (case decode_utf_8_sig lib file_bytes of
        Inl e \<Rightarrow> Inl e
      | Inr txt \<Rightarrow>
          (case csv_reader lib txt of
             Inl e \<Rightarrow> Inl e
           | Inr rows \<Rightarrow> Inr (parse_records rows)))"

section \<open>The remote service, as the client sees it\<close>

text \<open>
  A response carries what the code reads from it: \<^verbatim>\<open>status_code\<close>, \<^verbatim>\<open>text\<close> and
  the outcome of \<^verbatim>\<open>json()\<close>, which is the decoded body or raises (\<open>Inl\<close> holds
  the exception's \<^verbatim>\<open>str\<close>).
\<close>

record Response =
  status_code :: int
  "text" :: string
  json :: "string + json_value"

text \<open>
  One awaited call of the HTTP client either raises (transport error, timeout; the
  string is \<^verbatim>\<open>str(e)\<close>) or returns a response.
\<close>

datatype reply = Raises string | Returns Response

text \<open>The JSON body of the create request (lines 40-45).\<close>

record payload =
  payload_name :: string
  payload_address :: string
  payload_phone :: "string option"
  creation_batch_id :: string

text \<open>
  The network calls the code issues, in a log. \<open>POST url body timeout\<close> and
  \<open>PATCH url timeout\<close> are the calls of the processor; \<open>GET prefix hid\<close> and
  \<open>DELETE prefix hid\<close> are the calls of the batch endpoints, whose URL is the prefix
  followed by the formatted identifier.
\<close>

datatype call =
    POST string payload int
  | PATCH string int
  | GET string "json_value option"
  | DELETE string "json_value option"

fun is_POST :: "call \<Rightarrow> bool" where
  "is_POST (POST _ _ _) = True"
| "is_POST _ = False"

fun is_PATCH :: "call \<Rightarrow> bool" where
  "is_PATCH (PATCH _ _) = True"
| "is_PATCH _ = False"

text \<open>
  \<^verbatim>\<open>data.get("id")\<close> on the decoded body: a dictionary answers with the value or
  \<^verbatim>\<open>None\<close> (JSON \<^verbatim>\<open>null\<close> decodes to \<^verbatim>\<open>None\<close>); any other value has no
  attribute \<^verbatim>\<open>get\<close> and the access raises AttributeError.
\<close>

fun py_type_name :: "json_value \<Rightarrow> string" where
  "py_type_name JNull = ''NoneType''"
| "py_type_name (JBool _) = ''bool''"
| "py_type_name (JInt _) = ''int''"
| "py_type_name (JFloat _) = ''float''"
| "py_type_name (JString _) = ''str''"
| "py_type_name (JArray _) = ''list''"
| "py_type_name (JObject _) = ''dict''"

fun data_get :: "json_value \<Rightarrow> string \<Rightarrow> string + json_value option" where
  "data_get (JObject items) key =
     Inr (case map_of items key of
            None \<Rightarrow> None
          | Some JNull \<Rightarrow> None
          | Some v \<Rightarrow> Some v)"
| "data_get v key =
     Inl ([CHR 0x27] @ py_type_name v @ [CHR 0x27] @ '' object has no attribute ''
          @ [CHR 0x27] @ ''get'' @ [CHR 0x27])"

section \<open>Remote create client (app/processor.py, create_hospital)\<close>

definition make_payload :: "csv_row \<Rightarrow> string \<Rightarrow> payload" where
  "make_payload r bid =
     \<lparr> payload_name = row_name r,
       payload_address = row_address r,
       payload_phone = (case row_phone r of
                          None \<Rightarrow> None
                        | Some p \<Rightarrow> if p = [] then None else Some p),
       creation_batch_id = bid \<rparr>"

definition http_error :: "Response \<Rightarrow> string" where
  "http_error resp = ''HTTP '' @ str_int (status_code resp) @ '': '' @ text resp"

definition failed_result :: "int \<Rightarrow> payload \<Rightarrow> string \<Rightarrow> HospitalResult" where
  "failed_result row_idx p msg =
     \<lparr> row = row_idx, hospital_id = None, name = payload_name p,
       status = ''failed'', error = Some msg \<rparr>"

text \<open>
  Lines 52-65. The \<^verbatim>\<open>try\<close> encloses the whole \<^verbatim>\<open>for attempt in range(2)\<close> loop,
  so the \<^verbatim>\<open>except\<close> clause is the continuation of a raise in any iteration: the loop
  is left and the failed outcome with \<^verbatim>\<open>str(e)\<close> is returned.

  \<open>client k\<close> is what the \<open>k\<close>-th \<^verbatim>\<open>client.post\<close> call of this invocation does.
  The loop runs over the attempt numbers still to come, with the last response
  (\<^verbatim>\<open>resp\<close>) and the calls issued so far. \<^verbatim>\<open>range(2)\<close> is not empty, so \<^verbatim>\<open>resp\<close>
  is bound when line 63 reads it; on an empty range the read would raise and the
  \<^verbatim>\<open>except\<close> clause would return.
\<close>

fun post_loop ::
  "(nat \<Rightarrow> reply) \<Rightarrow> string \<Rightarrow> int \<Rightarrow> int \<Rightarrow> payload \<Rightarrow> nat list \<Rightarrow> Response option \<Rightarrow> call list
     \<Rightarrow> HospitalResult \<times> call list"
where
  "post_loop client url tmo row_idx p [] last_resp calls =
     (case last_resp of
        Some resp \<Rightarrow> (failed_result row_idx p (http_error resp), calls)
      | None \<Rightarrow>
          (failed_result row_idx p
             (''cannot access local variable '' @ [CHR 0x27] @ ''resp'' @ [CHR 0x27]
              @ '' where it is not associated with a value''), calls))"
| "post_loop client url tmo row_idx p (attempt # attempts) last_resp calls =
     (let calls' = calls @ [POST url p tmo] in
      case client attempt of
        Raises e \<Rightarrow> (failed_result row_idx p e, calls')
      | Returns resp \<Rightarrow>
          if status_code resp = 200 \<or> status_code resp = 201 then
            (case json resp of
               Inl e \<Rightarrow> (failed_result row_idx p e, calls')
             | Inr data \<Rightarrow>
                 (case data_get data ''id'' of
                    Inl e \<Rightarrow> (failed_result row_idx p e, calls')
                  | Inr hid \<Rightarrow>
                      (\<lparr> row = row_idx, hospital_id = hid, name = payload_name p,
                         status = ''created'', error = None \<rparr>, calls')))
          else if 400 \<le> status_code resp \<and> status_code resp < 500 then
            (failed_result row_idx p (http_error resp), calls')
          else post_loop client url tmo row_idx p attempts (Some resp) calls')"

definition create_hospital ::
  "Settings \<Rightarrow> (nat \<Rightarrow> reply) \<Rightarrow> int \<Rightarrow> csv_row \<Rightarrow> string \<Rightarrow> HospitalResult \<times> call list"
where
  "create_hospital cfg client row_idx r bid =
     (let p = make_payload r bid in
      if payload_name p = [] \<or> payload_address p = [] then
        (\<lparr> row = row_idx, hospital_id = None, name = payload_name p,
           status = ''validation_failed'', error = Some ''name or address missing'' \<rparr>, [])
      else
        post_loop client (HOSPITAL_API_BASE cfg @ ''/hospitals/'') (HTTP_TIMEOUT cfg)
          row_idx p [0 ..< 2] None [])"

section \<open>Batch dispatcher (app/processor.py, process_rows)\<close>

text \<open>
  What one call of \<^verbatim>\<open>process_rows\<close> meets outside the program:
  \<^item> \<open>post_reply i k\<close>: what the \<open>k\<close>-th \<^verbatim>\<open>client.post\<close> call of the task of row
    \<open>i\<close> does (the reply may depend on everything that happened before);
  \<^item> \<open>patch_reply\<close>: what the activation call does;
  \<^item> \<open>completion\<close>: the order in which the tasks complete;
  \<^item> \<open>time_start\<close>, \<open>time_end\<close>: the two readings of \<^verbatim>\<open>time.time()\<close>.
\<close>

record env =
  post_reply :: "int \<Rightarrow> nat \<Rightarrow> reply"
  patch_reply :: reply
  completion :: "nat list"
  time_start :: real
  time_end :: real

text \<open>
  \<^verbatim>\<open>asyncio.as_completed\<close> hands the tasks over as they finish. The schedule names,
  at each step, which of the tasks still pending finishes next (its position among
  them, modulo their number); when the schedule is used up the rest finish in their
  order. Every order of completion is the result of some schedule.
\<close>

fun as_completed :: "nat list \<Rightarrow> 'a list \<Rightarrow> 'a list" where
  "as_completed sched [] = []"
| "as_completed [] (t # ts) = t # ts"
| "as_completed (k # sched) (t # ts) =
     (let i = k mod length (t # ts)
      in (t # ts) ! i # as_completed sched (take i (t # ts) @ drop (Suc i) (t # ts)))"

text \<open>Line 80: one task per row, labelled \<open>i + 1\<close>.\<close>

definition tasks :: "Settings \<Rightarrow> env \<Rightarrow> csv_row list \<Rightarrow> string \<Rightarrow> (HospitalResult \<times> call list) list" where
  "tasks cfg e rows bid =
     map (\<lambda>(i, r). create_hospital cfg (post_reply e (int i + 1)) (int i + 1) r bid)
       (enumerate 0 rows)"

text \<open>Lines 85-95: the activation call, its flag and the call it issued.\<close>

definition activate :: "Settings \<Rightarrow> env \<Rightarrow> string \<Rightarrow> HospitalResult list \<Rightarrow> bool \<times> call list" where
  "activate cfg e bid results =
     (let created_any = list_ex (\<lambda>r. status r = ''created'') results in
      if created_any then
        (let activate_url = HOSPITAL_API_BASE cfg @ ''/hospitals/batch/'' @ bid @ ''/activate''
         in case patch_reply e of
              Raises ex \<Rightarrow> (False, [PATCH activate_url (HTTP_TIMEOUT cfg)])
            | Returns resp \<Rightarrow>
                (status_code resp = 200 \<or> status_code resp = 204,
                 [PATCH activate_url (HTTP_TIMEOUT cfg)]))
      else (False, []))"

text \<open>
  Line 73: \<^verbatim>\<open>asyncio.Semaphore\<close> raises ValueError for a negative value. With the
  value 0 no worker ever gets past \<^verbatim>\<open>async with sem\<close>, so with at least one row the
  loop of lines 81-83 waits for ever and the call does not return: \<open>None\<close>. With a
  positive value every worker runs to its end, whatever the interleaving.

  A call that returns gives \<open>Some\<close> of a pair: the exception raised (\<open>Inl\<close>) or the
  triple of the source (\<open>Inr\<close>), and the log of the network calls, those of each task in
  the order of completion and then the activation call.
\<close>

definition process_rows ::
  "Settings \<Rightarrow> env \<Rightarrow> csv_row list \<Rightarrow> string
     \<Rightarrow> ((exn + HospitalResult list \<times> bool \<times> real) \<times> call list) option"
where
  "process_rows cfg e rows bid =
     (if CONCURRENCY cfg < 0 then
        Some (Inl (Exception ''Semaphore initial value must be >= 0''), [])
      else if CONCURRENCY cfg = 0 \<and> rows \<noteq> [] then None
      else
        (let finished = as_completed (completion e) (tasks cfg e rows bid);
             results = map fst finished;
             (activated, acalls) = activate cfg e bid results;
             processing_time = time_end e - time_start e
         in Some (Inr (results, activated, processing_time),
                  concat (map snd finished) @ acalls)))"

section \<open>Boundary endpoints (app/main.py)\<close>

text \<open>
  An endpoint returns its value (\<open>Inr\<close>) or raises (\<open>Inl\<close>), together with the
  registry afterwards and the log of the network calls it issued. The registry of the
  running program holds the \<^verbatim>\<open>hospital_id\<close> fields of the created outcomes.
  \<^verbatim>\<open>bulk_upload\<close> awaits \<^verbatim>\<open>process_rows\<close> and does not return when that call
  does not (\<open>None\<close>).
\<close>

type_synonym registry = "json_value option batches"

text \<open>
  \<^verbatim>\<open>bulk_upload\<close> (lines 48-81). The upload is its file name and its bytes;
  \<open>uuid4\<close> is the string \<^verbatim>\<open>str(uuid.uuid4())\<close> of this call.
\<close>

definition bulk_upload ::
  "Settings \<Rightarrow> pylib \<Rightarrow> env \<Rightarrow> string \<Rightarrow> string \<Rightarrow> bytes \<Rightarrow> registry
     \<Rightarrow> ((exn + BulkResponse) \<times> registry \<times> call list) option"
where
  "bulk_upload cfg lib e uuid4 filename file_bytes reg =
     (if \<not> py_endswith (py_lower filename) ''.csv'' then
        Some (Inl (HTTPException 400 ''Only CSV files allowed.''), reg, [])
      else
        case parse_csv_bytes lib file_bytes of
          Inl ex \<Rightarrow> Some (Inl ex, reg, [])
        | Inr rows \<Rightarrow>
            if length rows = 0 then
              Some (Inl (HTTPException 400 ''CSV contains no valid rows''), reg, [])
            else if int (length rows) > MAX_CSV_ROWS cfg then
              Some (Inl (HTTPException 400
                           (''Max rows allowed: '' @ str_int (MAX_CSV_ROWS cfg))), reg, [])
            else
              (let bid = uuid4 in
               case process_rows cfg e rows bid of
                 None \<Rightarrow> None
               | Some (Inl ex, calls) \<Rightarrow> Some (Inl ex, reg, calls)
               | Some (Inr (results, activated, processing_time), calls) \<Rightarrow>
                   (let created_ids =
                          map hospital_id (filter (\<lambda>r. status r = ''created'') results);
                        reg' = save_batch bid created_ids reg
                    in Some (Inr \<lparr> batch_id = bid,
                                   total_hospitals = int (length rows),
                                   processed_hospitals = int (length created_ids),
                                   failed_hospitals =
                                     int (length rows) - int (length created_ids),
                                   processing_time_seconds = processing_time,
                                   batch_activated = activated,
                                   hospitals = results \<rparr>,
                             reg', calls))))"

text \<open>
  \<^verbatim>\<open>batch_details\<close> (lines 88-101). \<open>get_reply hid\<close> is what the GET for that
  identifier does; a raise of the client or of \<^verbatim>\<open>res.json()\<close> leaves the endpoint.
\<close>

fun fetch_loop ::
  "(json_value option \<Rightarrow> reply) \<Rightarrow> string \<Rightarrow> json_value option list \<Rightarrow> json_value list \<Rightarrow> call list
     \<Rightarrow> (exn + json_value list) \<times> call list"
where
  "fetch_loop get_reply prefix [] hosps calls = (Inr hosps, calls)"
| "fetch_loop get_reply prefix (hid # ids) hosps calls =
     (let calls' = calls @ [GET prefix hid] in
      case get_reply hid of
        Raises ex \<Rightarrow> (Inl (Exception ex), calls')
      | Returns res \<Rightarrow>
          if status_code res = 200 then
            (case json res of
               Inl ex \<Rightarrow> (Inl (Exception ex), calls')
             | Inr body \<Rightarrow> fetch_loop get_reply prefix ids (hosps @ [body]) calls')
          else fetch_loop get_reply prefix ids hosps calls')"

definition batch_details ::
  "Settings \<Rightarrow> (json_value option \<Rightarrow> reply) \<Rightarrow> string \<Rightarrow> registry
     \<Rightarrow> (exn + json_value list) \<times> registry \<times> call list"
where
  "batch_details cfg get_reply bid reg =
     (case get_batch bid reg of
        None \<Rightarrow> (Inl (HTTPException 404 ''Batch not found''), reg, [])
      | Some ids \<Rightarrow>
          if ids = [] then (Inl (HTTPException 404 ''Batch not found''), reg, [])
          else
            (let (res, calls) =
                   fetch_loop get_reply (HOSPITAL_API_BASE cfg @ ''/hospitals/'') ids [] []
             in (res, reg, calls)))"

text \<open>
  \<^verbatim>\<open>delete_batch\<close> (lines 119-133): the remote deletes, whose responses are not
  read, then the removal from the registry. The value returned is the dictionary
  \<^verbatim>\<open>{"batch_id": batch_id, "deleted": True}\<close>.
\<close>

fun delete_loop ::
  "(json_value option \<Rightarrow> reply) \<Rightarrow> string \<Rightarrow> json_value option list \<Rightarrow> call list
     \<Rightarrow> (exn + unit) \<times> call list"
where
  "delete_loop delete_reply prefix [] calls = (Inr (), calls)"
| "delete_loop delete_reply prefix (hid # ids) calls =
     (let calls' = calls @ [DELETE prefix hid] in
      case delete_reply hid of
        Raises ex \<Rightarrow> (Inl (Exception ex), calls')
      | Returns res \<Rightarrow> delete_loop delete_reply prefix ids calls')"

definition delete_batch ::
  "Settings \<Rightarrow> (json_value option \<Rightarrow> reply) \<Rightarrow> string \<Rightarrow> registry
     \<Rightarrow> (exn + string \<times> bool) \<times> registry \<times> call list"
where
  "delete_batch cfg delete_reply bid reg =
     (case get_batch bid reg of
        None \<Rightarrow> (Inl (HTTPException 404 ''Batch not found''), reg, [])
      | Some ids \<Rightarrow>
          if ids = [] then (Inl (HTTPException 404 ''Batch not found''), reg, [])
          else
            (case delete_loop delete_reply (HOSPITAL_API_BASE cfg @ ''/hospitals/'') ids [] of
               (Inl ex, calls) \<Rightarrow> (Inl ex, reg, calls)
             | (Inr u, calls) \<Rightarrow> (Inr (bid, True), snd (remove_batch bid reg), calls)))"

section \<open>The parser as the specification words it\<close>

text \<open>
  The specification describes the parser by what becomes of the records: a header test
  on the first record, the records that are skipped, and the request made of a
  retained record. These definitions follow its words; the parser of the source is
  compared with them below.
\<close>

definition whitespace_only :: "string \<Rightarrow> bool" where
  "whitespace_only c = list_all py_isspace (code_points c)"

definition spec_is_header :: "string list list \<Rightarrow> bool" where
  "spec_is_header recs =
     (recs \<noteq> [] \<and> hd recs \<noteq> [] \<and> py_lower (py_strip (hd (hd recs))) = ''name'')"

definition spec_skipped :: "string list \<Rightarrow> bool" where
  "spec_skipped r = list_all whitespace_only r"

definition spec_cell :: "string list \<Rightarrow> nat \<Rightarrow> string option" where
  "spec_cell r k = (if k < length r then Some (py_strip (r ! k)) else None)"

definition spec_request :: "string list \<Rightarrow> csv_row" where
  "spec_request r =
     \<lparr> row_name = (case spec_cell r 0 of Some c \<Rightarrow> c | None \<Rightarrow> []),
       row_address = (case spec_cell r 1 of Some c \<Rightarrow> c | None \<Rightarrow> []),
       row_phone = spec_cell r 2 \<rparr>"

definition spec_parse :: "string list list \<Rightarrow> csv_row list" where
  "spec_parse recs =
     map spec_request
       (filter (\<lambda>r. \<not> spec_skipped r) (if spec_is_header recs then tl recs else recs))"

section \<open>Concrete inputs\<close>

text \<open>
  The three rows of the example of the specification, a remote service that answers every
  create call with 201 and an identifier and the activation call with 204, the same
  service with an activation call that times out, and a service that answers 503 to
  everything. In each, the task of row 3 completes first, then those of rows 1 and 2.
\<close>

definition example_rows :: "csv_row list" where
  "example_rows =
     [\<lparr> row_name = ''A'', row_address = ''Addr1'', row_phone = Some ''111'' \<rparr>,
      \<lparr> row_name = [], row_address = ''Addr2'', row_phone = None \<rparr>,
      \<lparr> row_name = ''B'', row_address = ''Addr3'', row_phone = Some ''222'' \<rparr>]"

definition reply_created :: "int \<Rightarrow> reply" where
  "reply_created i =
     Returns \<lparr> status_code = 201, text = ''created'',
               json = Inr (JObject [(''id'', JInt i)]) \<rparr>"

definition reply_status :: "int \<Rightarrow> string \<Rightarrow> reply" where
  "reply_status code body =
     Returns \<lparr> status_code = code, text = body, json = Inl ''Expecting value'' \<rparr>"

definition env_up :: env where
  "env_up = \<lparr> post_reply = (\<lambda>i k. reply_created (100 + i)),
              patch_reply = reply_status 204 [],
              completion = [2, 0], time_start = 10, time_end = 12 \<rparr>"

definition env_patch_timeout :: env where
  "env_patch_timeout = env_up \<lparr> patch_reply := Raises ''timed out'' \<rparr>"

definition env_down :: env where
  "env_down = env_up \<lparr> post_reply := (\<lambda>i k. reply_status 503 ''busy''),
                       patch_reply := reply_status 503 ''busy'' \<rparr>"

text \<open>
  An upload of six lines (a header, the three rows, a line of blanks and an empty line)
  with what the library makes of it: the bytes are valid UTF-8 without a byte order
  mark and decode to the text they encode, and \<^verbatim>\<open>csv.reader\<close> splits the text into
  six records. The address of the first row stands between an em space (U+2003) and a
  no-break space (U+00A0).
\<close>

definition example_text :: string where
  "example_text =
     ''name,address,phone'' @ [CHR 0x0A]
     @ ''A,'' @ [CHR 0xE2, CHR 0x80, CHR 0x83] @ ''Addr1'' @ [CHR 0xC2, CHR 0xA0] @ '',111''
     @ [CHR 0x0A]
     @ '',Addr2'' @ [CHR 0x0A] @ ''  ,'' @ [CHR 0x0A] @ [CHR 0x0A]
     @ ''B,Addr3,222'' @ [CHR 0x0A]"

definition example_records :: "string list list" where
  "example_records =
     [[''name'', ''address'', ''phone''],
      [''A'', [CHR 0xE2, CHR 0x80, CHR 0x83] @ ''Addr1'' @ [CHR 0xC2, CHR 0xA0], ''111''],
      [[], ''Addr2''], [''  '', []], [], [''B'', ''Addr3'', ''222'']]"

definition example_lib :: pylib where
  "example_lib =
     \<lparr> decode_utf_8_sig = (\<lambda>b. if b = example_text then Inr example_text
                                else Inl (Exception ''not modelled'')),
       csv_reader = (\<lambda>t. if t = example_text then Inr example_records
                          else Inl (Exception ''not modelled'')) \<rparr>"

text \<open>
  An upload with a carriage return inside an unquoted cell. The bytes are ASCII and
  decode to themselves; \<^verbatim>\<open>csv.reader\<close>, reading the lines of an
  \<^verbatim>\<open>io.StringIO\<close>, meets the letter after the carriage return and raises
  \<^verbatim>\<open>_csv.Error\<close>.
\<close>

definition bare_cr_text :: string where
  "bare_cr_text = ''A'' @ [CHR 0x0D] @ ''B,Addr'' @ [CHR 0x0A]"

definition csv_newline_error :: string where
  "csv_newline_error =
     ''new-line character seen in unquoted field - do you need to open the file with newline=''
     @ [CHR 0x27, CHR 0x27] @ ''?''"

definition bare_cr_lib :: pylib where
  "bare_cr_lib =
     \<lparr> decode_utf_8_sig = (\<lambda>b. if b = bare_cr_text then Inr bare_cr_text
                                else Inl (Exception ''not modelled'')),
       csv_reader = (\<lambda>t. if t = bare_cr_text then Inl (Exception csv_newline_error)
                          else Inl (Exception ''not modelled'')) \<rparr>"

text \<open>The outcomes and the create calls expected of these services for the three rows.\<close>

definition example_url :: string where
  "example_url = ''https://hospital-directory.onrender.com/hospitals/''"

definition example_activate_url :: string where
  "example_activate_url = ''https://hospital-directory.onrender.com/hospitals/batch/b1/activate''"

definition payload_A :: payload where
  "payload_A = \<lparr> payload_name = ''A'', payload_address = ''Addr1'',
                  payload_phone = Some ''111'', creation_batch_id = ''b1'' \<rparr>"

definition payload_B :: payload where
  "payload_B = \<lparr> payload_name = ''B'', payload_address = ''Addr3'',
                  payload_phone = Some ''222'', creation_batch_id = ''b1'' \<rparr>"

definition outcome_invalid :: HospitalResult where
  "outcome_invalid =
     \<lparr> row = 2, hospital_id = None, name = [], status = ''validation_failed'',
       error = Some ''name or address missing'' \<rparr>"

definition outcomes_up :: "HospitalResult list" where
  "outcomes_up =
     [\<lparr> row = 3, hospital_id = Some (JInt 103), name = ''B'', status = ''created'',
        error = None \<rparr>,
      \<lparr> row = 1, hospital_id = Some (JInt 101), name = ''A'', status = ''created'',
        error = None \<rparr>,
      outcome_invalid]"

definition outcomes_down :: "HospitalResult list" where
  "outcomes_down =
     [\<lparr> row = 3, hospital_id = None, name = ''B'', status = ''failed'',
        error = Some ''HTTP 503: busy'' \<rparr>,
      \<lparr> row = 1, hospital_id = None, name = ''A'', status = ''failed'',
        error = Some ''HTTP 503: busy'' \<rparr>,
      outcome_invalid]"

definition posts_up :: "call list" where
  "posts_up = [POST example_url payload_B 10, POST example_url payload_A 10]"

definition posts_down :: "call list" where
  "posts_down = [POST example_url payload_B 10, POST example_url payload_B 10,
                 POST example_url payload_A 10, POST example_url payload_A 10]"

section \<open>Properties of the registry\<close>

lemma get_after_save: "get_batch i (save_batch i xs b) = Some xs"
  by (simp add: get_batch_def save_batch_def)

lemma remove_after_save:
  "remove_batch i (save_batch i xs b) = (True, b(i := None))"
  by (simp add: remove_batch_def save_batch_def)

lemma save_other_key: "j \<noteq> i \<Longrightarrow> get_batch j (save_batch i xs b) = get_batch j b"
  by (simp add: get_batch_def save_batch_def)

text \<open>
  C6. For every batch id and every list of remote ids: \<^verbatim>\<open>save\<close> followed by
  \<^verbatim>\<open>get\<close> returns exactly that list; \<^verbatim>\<open>save\<close> followed by \<^verbatim>\<open>remove\<close> returns
  true, and a \<^verbatim>\<open>get\<close> after that finds nothing; \<^verbatim>\<open>remove\<close> of an absent id
  returns false and leaves the registry as it was.
\<close>

theorem registry_round_trip:
  "get_batch i (save_batch i xs b) = Some xs
   \<and> fst (remove_batch i (save_batch i xs b)) = True
   \<and> get_batch i (snd (remove_batch i (save_batch i xs b))) = None
   \<and> (get_batch i b = None \<longrightarrow> remove_batch i b = (False, b))"
  by (simp add: get_batch_def save_batch_def remove_batch_def)

theorem registry_round_trip_witness:
  "get_batch ''b1'' (Map.empty :: nat batches) = None
   \<and> remove_batch ''b1'' (Map.empty :: nat batches) = (False, Map.empty)
   \<and> get_batch ''b1'' (save_batch ''b1'' [1, 2, 3 :: nat] Map.empty) = Some [1, 2, 3]
   \<and> get_batch ''b1'' (snd (remove_batch ''b1'' (save_batch ''b1'' [1, 2, 3 :: nat] Map.empty))) = None"
  using registry_round_trip [of "''b1''" "[1, 2, 3 :: nat]" Map.empty]
  by (simp add: get_batch_def)

section \<open>Evaluation of the concrete inputs\<close>

lemma range_2: "[0 ..< 2] = [0, Suc 0]"
  by (simp add: upt_rec)

lemmas example_simps =
  example_rows_def env_up_def env_patch_timeout_def env_down_def reply_created_def
  reply_status_def settings_def example_url_def example_activate_url_def payload_A_def
  payload_B_def outcome_invalid_def outcomes_up_def outcomes_down_def posts_up_def
  posts_down_def

lemmas run_simps =
  process_rows_def activate_def tasks_def enumerate_eq_zip create_hospital_def
  make_payload_def Let_def range_2 upt_rec failed_result_def http_error_def str_int_def
  str_nat.simps

lemma process_rows_env_up:
  "process_rows settings env_up example_rows ''b1'' =
     Some (Inr (outcomes_up, True, 2), posts_up @ [PATCH example_activate_url 10])"
  by (simp add: example_simps run_simps)

lemma process_rows_env_patch_timeout:
  "process_rows settings env_patch_timeout example_rows ''b1'' =
     Some (Inr (outcomes_up, False, 2), posts_up @ [PATCH example_activate_url 10])"
  by (simp add: example_simps run_simps)

lemma process_rows_env_down:
  "process_rows settings env_down example_rows ''b1''
     = Some (Inr (outcomes_down, False, 2), posts_down)"
  by (simp add: example_simps run_simps)

lemmas str_simps =
  py_strip_def py_lower_def py_lower_code_point_def py_isspace_def whitespace_def
  utf8_width_def char_of_def bit_Suc_0_iff

lemma parse_example: "parse_csv_bytes example_lib example_text = Inr example_rows"
  by (simp add: parse_csv_bytes_def example_lib_def parse_records_def drop_header_def
      is_header_def is_blank_def to_row_def example_records_def example_rows_def str_simps)

lemma csv_suffix: "py_endswith (py_lower ''Hospitals.CSV'') ''.csv''"
  by (simp add: py_endswith_def str_simps)

lemma bulk_upload_env_up:
  "bulk_upload settings example_lib env_up ''b1'' ''Hospitals.CSV'' example_text Map.empty =
     Some (Inr \<lparr> batch_id = ''b1'', total_hospitals = 3, processed_hospitals = 2,
                 failed_hospitals = 1, processing_time_seconds = 2, batch_activated = True,
                 hospitals = outcomes_up \<rparr>,
           save_batch ''b1'' [Some (JInt 103), Some (JInt 101)] Map.empty,
           posts_up @ [PATCH example_activate_url 10])"
  by (simp add: bulk_upload_def csv_suffix parse_example process_rows_env_up)
     (simp add: Let_def example_rows_def settings_def outcomes_up_def outcome_invalid_def)

lemma bulk_upload_env_down:
  "bulk_upload settings example_lib env_down ''b1'' ''Hospitals.CSV'' example_text Map.empty =
     Some (Inr \<lparr> batch_id = ''b1'', total_hospitals = 3, processed_hospitals = 0,
                 failed_hospitals = 3, processing_time_seconds = 2, batch_activated = False,
                 hospitals = outcomes_down \<rparr>,
           save_batch ''b1'' [] Map.empty, posts_down)"
  by (simp add: bulk_upload_def csv_suffix parse_example process_rows_env_down)
     (simp add: Let_def example_rows_def settings_def outcomes_down_def outcome_invalid_def)

section \<open>Properties of the remote create client\<close>

lemma post_loop_only_posts:
  "list_all is_POST calls \<Longrightarrow>
   list_all is_POST (snd (post_loop client url tmo row_idx p attempts last_resp calls))"
  by (induction attempts arbitrary: last_resp calls)
     (auto simp: Let_def split: option.splits reply.splits sum.splits)

lemma post_loop_length:
  "length (snd (post_loop client url tmo row_idx p attempts last_resp calls))
     \<le> length calls + length attempts"
proof (induction attempts arbitrary: last_resp calls)
  case Nil
  show ?case by (simp split: option.splits)
next
  case (Cons a attempts)
  have "length (snd (post_loop client url tmo row_idx p attempts (Some resp) (calls @ [POST url p tmo])))
          \<le> length calls + length (a # attempts)" for resp
    using Cons.IH [of "Some resp" "calls @ [POST url p tmo]"] by simp
  then show ?case
    by (auto simp: Let_def split: option.splits reply.splits sum.splits)
qed

lemma create_hospital_only_posts:
  "list_all is_POST (snd (create_hospital cfg client row_idx r bid))"
  by (simp add: create_hospital_def Let_def post_loop_only_posts)

lemma create_hospital_at_most_two_posts:
  "length (snd (create_hospital cfg client row_idx r bid)) \<le> 2"
proof -
  have "length (snd (post_loop client url tmo row_idx p [0 ..< 2] None [])) \<le> 2" for url tmo p
    using post_loop_length [of client url tmo row_idx p "[0 ..< 2]" None "[]"] by simp
  then show ?thesis
    by (simp add: create_hospital_def Let_def)
qed

text \<open>
  A raise of the first \<^verbatim>\<open>client.post\<close> ends the invocation: one call is logged and the
  outcome carries the exception's text. A response that is neither 200, 201 nor in the
  4xx range sends the loop into its second iteration.
\<close>

lemma create_hospital_raise_first:
  assumes "row_name r \<noteq> []" and "row_address r \<noteq> []"
    and "client 0 = Raises ex"
  shows "create_hospital cfg client row_idx r bid =
     (\<lparr> row = row_idx, hospital_id = None, name = row_name r, status = ''failed'',
        error = Some ex \<rparr>,
      [POST (HOSPITAL_API_BASE cfg @ ''/hospitals/'') (make_payload r bid) (HTTP_TIMEOUT cfg)])"
  using assms
  by (simp add: create_hospital_def Let_def range_2 failed_result_def)
     (simp add: make_payload_def)

lemma create_hospital_transient_retried:
  assumes "row_name r \<noteq> []" and "row_address r \<noteq> []"
    and "client 0 = Returns resp"
    and "status_code resp \<noteq> 200" and "status_code resp \<noteq> 201"
    and "status_code resp < 400 \<or> 500 \<le> status_code resp"
  shows "length (snd (create_hospital cfg client row_idx r bid)) = 2"
  using assms
  by (auto simp: create_hospital_def Let_def range_2 make_payload_def
           split: reply.splits sum.splits)

text \<open>
  C4. For every row whose name or address is empty, the client returns an outcome with
  status \<^verbatim>\<open>validation_failed\<close>, no remote id and the error message
  \<^verbatim>\<open>name or address missing\<close>, and issues no network call.
\<close>

theorem create_hospital_validation_failed:
  "row_name r = [] \<or> row_address r = [] \<Longrightarrow>
   create_hospital cfg client row_idx r bid =
     (\<lparr> row = row_idx, hospital_id = None, name = row_name r,
        status = ''validation_failed'', error = Some ''name or address missing'' \<rparr>, [])"
  by (auto simp: create_hospital_def make_payload_def Let_def)

theorem create_hospital_validation_failed_witness:
  "row_name (example_rows ! 1) = []
   \<and> create_hospital settings (post_reply env_up 2) 2 (example_rows ! 1) ''b1''
       = (outcome_invalid, [])"
  using create_hospital_validation_failed
          [of "example_rows ! 1" settings "post_reply env_up 2" 2 "''b1''"]
  by (simp add: example_simps)

text \<open>
  C5. For every row that passes the validation gate and whose first create call
  returns a status from 400 to 499, the client issues exactly that one call and returns
  an outcome with status \<^verbatim>\<open>failed\<close> whose error is \<^verbatim>\<open>HTTP\<close>, the status and the
  response text.
\<close>

theorem create_hospital_client_error:
  assumes "row_name r \<noteq> []" and "row_address r \<noteq> []"
    and "client 0 = Returns resp"
    and "400 \<le> status_code resp" and "status_code resp < 500"
  shows "create_hospital cfg client row_idx r bid =
     (\<lparr> row = row_idx, hospital_id = None, name = row_name r, status = ''failed'',
        error = Some (''HTTP '' @ str_int (status_code resp) @ '': '' @ text resp) \<rparr>,
      [POST (HOSPITAL_API_BASE cfg @ ''/hospitals/'') (make_payload r bid) (HTTP_TIMEOUT cfg)])"
  using assms
  by (simp add: create_hospital_def Let_def range_2 failed_result_def http_error_def)
     (simp add: make_payload_def)

theorem create_hospital_client_error_witness:
  "create_hospital settings (\<lambda>k. reply_status 404 ''Not Found'') 1 (example_rows ! 0) ''b1''
     = (\<lparr> row = 1, hospital_id = None, name = ''A'', status = ''failed'',
          error = Some ''HTTP 404: Not Found'' \<rparr>,
        [POST example_url payload_A 10])"
  using create_hospital_client_error
          [of "example_rows ! 0" "\<lambda>k. reply_status 404 ''Not Found''"
              "\<lparr> status_code = 404, text = ''Not Found'', json = Inl ''Expecting value'' \<rparr>"
              settings 1 "''b1''"]
  by (simp add: example_simps make_payload_def str_int_def str_nat.simps)

text \<open>
  C1. The claim: when a submission raises (transport error, timeout), the client makes
  one more submission before it returns. The code at the row \<^verbatim>\<open>A, Addr1, 111\<close>,
  with a first call that times out and a service that would answer 201 to a second
  call: one call is issued and the outcome is \<^verbatim>\<open>failed\<close> with the text of the
  timeout.
\<close>

theorem create_hospital_raise_not_retried:
  "create_hospital settings
     (\<lambda>k. if k = 0 then Raises ''timed out'' else reply_created 101) 1 (example_rows ! 0) ''b1''
     = (\<lparr> row = 1, hospital_id = None, name = ''A'', status = ''failed'',
          error = Some ''timed out'' \<rparr>,
        [POST example_url payload_A 10])"
  by (simp add: example_simps create_hospital_def make_payload_def Let_def range_2
        failed_result_def)

section \<open>Properties of the dispatcher\<close>

lemma mset_remove_nth:
  assumes "i < length xs"
  shows "mset (xs ! i # take i xs @ drop (Suc i) xs) = mset xs"
proof -
  have "xs = take i xs @ xs ! i # drop (Suc i) xs"
    using assms by (rule id_take_nth_drop)
  then have "mset xs = mset (take i xs @ xs ! i # drop (Suc i) xs)"
    by simp
  then show ?thesis by simp
qed

lemma mset_as_completed: "mset (as_completed sched ts) = mset ts"
proof (induction sched ts rule: as_completed.induct)
  case (1 sched)
  show ?case by simp
next
  case (2 t ts)
  show ?case by simp
next
  case (3 k sched t ts)
  define i where "i = k mod length (t # ts)"
  have i: "i < length (t # ts)"
    unfolding i_def by simp
  have "mset (as_completed sched (take i (t # ts) @ drop (Suc i) (t # ts)))
          = mset (take i (t # ts) @ drop (Suc i) (t # ts))"
    using "3.IH" [of i] by (simp add: i_def)
  then have "mset (as_completed (k # sched) (t # ts))
          = mset ((t # ts) ! i # take i (t # ts) @ drop (Suc i) (t # ts))"
    by (simp add: Let_def i_def del: upt_Suc)
  also have "\<dots> = mset (t # ts)"
    using i by (rule mset_remove_nth)
  finally show ?case .
qed

lemma length_as_completed: "length (as_completed sched ts) = length ts"
  using mset_as_completed [of sched ts] by (metis size_mset)

lemma set_as_completed: "set (as_completed sched ts) = set ts"
  using mset_as_completed [of sched ts] by (metis set_mset_mset)

lemma tasks_only_posts:
  "t \<in> set (tasks cfg e rows bid) \<Longrightarrow> list_all is_POST (snd t)"
  by (auto simp: tasks_def create_hospital_only_posts)

lemma length_tasks: "length (tasks cfg e rows bid) = length rows"
  by (simp add: tasks_def)

lemma no_patch_in_posts: "list_all is_POST cs \<Longrightarrow> filter is_PATCH cs = []"
  by (induction cs) (auto elim: is_POST.elims)

lemma no_patch_in_concat:
  "(\<And>t. t \<in> set ts \<Longrightarrow> list_all is_POST (snd t)) \<Longrightarrow>
   filter is_PATCH (concat (map snd ts)) = []"
  by (induction ts) (simp_all add: no_patch_in_posts)

lemma finished_no_patch:
  "filter is_PATCH (concat (map snd (as_completed sched (tasks cfg e rows bid)))) = []"
  by (rule no_patch_in_concat) (simp add: set_as_completed tasks_only_posts)

text \<open>
  C2. Every dispatch call under a positive ceiling returns its triple, whatever the
  activation call does. For every dispatch call that returns, the log holds exactly one
  activation call when some outcome has status \<^verbatim>\<open>created\<close> and none otherwise;
  when the activation call raises, the flag is false; when no outcome is
  \<^verbatim>\<open>created\<close>, the flag is false.
\<close>

theorem process_rows_activation:
  "(0 < CONCURRENCY cfg \<longrightarrow>
      (\<exists>res calls. process_rows cfg e rows bid = Some (Inr res, calls)))
   \<and> (\<forall>results activated elapsed calls.
        process_rows cfg e rows bid = Some (Inr (results, activated, elapsed), calls) \<longrightarrow>
          filter is_PATCH calls =
            (if list_ex (\<lambda>r. status r = ''created'') results
             then [PATCH (HOSPITAL_API_BASE cfg @ ''/hospitals/batch/'' @ bid @ ''/activate'')
                     (HTTP_TIMEOUT cfg)]
             else [])
        \<and> (\<forall>ex. patch_reply e = Raises ex \<longrightarrow> \<not> activated)
        \<and> (\<not> list_ex (\<lambda>r. status r = ''created'') results \<longrightarrow> \<not> activated))"
proof -
  have returns: "\<exists>res calls. process_rows cfg e rows bid = Some (Inr res, calls)"
    if "0 < CONCURRENCY cfg"
    using that by (simp add: process_rows_def Let_def split: prod.splits)
  have activation:
    "filter is_PATCH calls =
       (if list_ex (\<lambda>r. status r = ''created'') results
        then [PATCH (HOSPITAL_API_BASE cfg @ ''/hospitals/batch/'' @ bid @ ''/activate'')
                (HTTP_TIMEOUT cfg)]
        else [])
     \<and> (\<forall>ex. patch_reply e = Raises ex \<longrightarrow> \<not> activated)
     \<and> (\<not> list_ex (\<lambda>r. status r = ''created'') results \<longrightarrow> \<not> activated)"
    if "process_rows cfg e rows bid = Some (Inr (results, activated, elapsed), calls)"
    for results activated elapsed calls
    using that
    by (auto simp: process_rows_def activate_def Let_def finished_no_patch
             split: if_splits reply.splits prod.splits)
  show ?thesis
    using returns activation by blast
qed

theorem process_rows_activation_witness:
  "0 < CONCURRENCY settings
   \<and> process_rows settings env_patch_timeout example_rows ''b1''
       = Some (Inr (outcomes_up, False, 2), posts_up @ [PATCH example_activate_url 10])
   \<and> patch_reply env_patch_timeout = Raises ''timed out''
   \<and> list_ex (\<lambda>r. status r = ''created'') outcomes_up
   \<and> filter is_PATCH (posts_up @ [PATCH example_activate_url 10])
       = [PATCH example_activate_url 10]
   \<and> process_rows settings env_down example_rows ''b1''
       = Some (Inr (outcomes_down, False, 2), posts_down)
   \<and> \<not> list_ex (\<lambda>r. status r = ''created'') outcomes_down
   \<and> filter is_PATCH posts_down = []"
  using process_rows_activation [of settings env_patch_timeout example_rows "''b1''"]
    process_rows_activation [of settings env_down example_rows "''b1''"]
    process_rows_env_patch_timeout process_rows_env_down
  by (simp add: example_simps)

section \<open>Properties of the ingestion endpoint\<close>

lemma length_results:
  "process_rows cfg e rows bid = Some (Inr (results, activated, elapsed), calls) \<Longrightarrow>
   length results = length rows"
  by (auto simp: process_rows_def Let_def length_as_completed length_tasks
           split: prod.splits if_splits)

lemma process_rows_returns:
  "0 < CONCURRENCY cfg \<Longrightarrow>
   \<exists>results activated elapsed calls.
     process_rows cfg e rows bid = Some (Inr (results, activated, elapsed), calls)"
  by (simp add: process_rows_def Let_def split: prod.splits)

text \<open>Past the three gates the endpoint is determined by the dispatch call.\<close>

lemma bulk_upload_past_gates:
  assumes "py_endswith (py_lower filename) ''.csv''"
    and "parse_csv_bytes lib file_bytes = Inr rows"
    and "1 \<le> length rows" and "int (length rows) \<le> MAX_CSV_ROWS cfg"
  shows "bulk_upload cfg lib e uuid4 filename file_bytes reg =
     (case process_rows cfg e rows uuid4 of
        None \<Rightarrow> None
      | Some (Inl ex, calls) \<Rightarrow> Some (Inl ex, reg, calls)
      | Some (Inr (results, activated, elapsed), calls) \<Rightarrow>
          Some (Inr \<lparr> batch_id = uuid4,
                      total_hospitals = int (length rows),
                      processed_hospitals =
                        int (length (filter (\<lambda>r. status r = ''created'') results)),
                      failed_hospitals = int (length rows)
                        - int (length (filter (\<lambda>r. status r = ''created'') results)),
                      processing_time_seconds = elapsed,
                      batch_activated = activated,
                      hospitals = results \<rparr>,
                save_batch uuid4
                  (map hospital_id (filter (\<lambda>r. status r = ''created'') results)) reg,
                calls))"
proof -
  have "rows \<noteq> []"
    using assms(3) by auto
  then show ?thesis
    using assms
    by (simp add: bulk_upload_def Let_def split: option.splits prod.splits sum.splits)
qed

lemma bulk_upload_response:
  assumes "py_endswith (py_lower filename) ''.csv''"
    and "parse_csv_bytes lib file_bytes = Inr rows"
    and "1 \<le> length rows" and "int (length rows) \<le> MAX_CSV_ROWS cfg"
    and "bulk_upload cfg lib e uuid4 filename file_bytes reg = Some (Inr resp, reg', calls)"
  shows "\<exists>results activated elapsed.
           process_rows cfg e rows uuid4 = Some (Inr (results, activated, elapsed), calls)
         \<and> resp = \<lparr> batch_id = uuid4,
                    total_hospitals = int (length rows),
                    processed_hospitals =
                      int (length (filter (\<lambda>r. status r = ''created'') results)),
                    failed_hospitals = int (length rows)
                      - int (length (filter (\<lambda>r. status r = ''created'') results)),
                    processing_time_seconds = elapsed,
                    batch_activated = activated,
                    hospitals = results \<rparr>
         \<and> reg' = save_batch uuid4
                    (map hospital_id (filter (\<lambda>r. status r = ''created'') results)) reg"
  using assms(5) unfolding bulk_upload_past_gates [OF assms(1-4)]
  by (auto split: option.splits prod.splits sum.splits)

lemma bulk_upload_returns:
  assumes "py_endswith (py_lower filename) ''.csv''"
    and "parse_csv_bytes lib file_bytes = Inr rows"
    and "1 \<le> length rows" and "int (length rows) \<le> MAX_CSV_ROWS cfg"
    and "0 < CONCURRENCY cfg"
  shows "\<exists>resp ids calls.
           bulk_upload cfg lib e uuid4 filename file_bytes reg
             = Some (Inr resp, save_batch uuid4 ids reg, calls)"
proof -
  obtain results activated elapsed calls
    where "process_rows cfg e rows uuid4 = Some (Inr (results, activated, elapsed), calls)"
    using process_rows_returns [OF assms(5)] by blast
  then show ?thesis
    unfolding bulk_upload_past_gates [OF assms(1-4)] by auto
qed

text \<open>
  C3. For every upload that passes the gates (a \<^verbatim>\<open>.csv\<close> file name, a parse that
  yields N rows, N at least 1 and at most the configured maximum), the endpoint returns
  a response when the ceiling is positive, and every response it returns has
  \<^verbatim>\<open>total_hospitals\<close> = N, one outcome for each row, \<^verbatim>\<open>processed_hospitals\<close> =
  the number of outcomes with status \<^verbatim>\<open>created\<close> and \<^verbatim>\<open>failed_hospitals\<close> = N
  minus that number, which is the number of the other outcomes; the two add up to the
  total.
\<close>

theorem bulk_upload_counts:
  assumes "py_endswith (py_lower filename) ''.csv''"
    and "parse_csv_bytes lib file_bytes = Inr rows"
    and "1 \<le> length rows" and "int (length rows) \<le> MAX_CSV_ROWS cfg"
  shows "(0 < CONCURRENCY cfg \<longrightarrow>
            (\<exists>resp reg' calls.
               bulk_upload cfg lib e uuid4 filename file_bytes reg = Some (Inr resp, reg', calls)))
       \<and> (\<forall>resp reg' calls.
            bulk_upload cfg lib e uuid4 filename file_bytes reg = Some (Inr resp, reg', calls) \<longrightarrow>
              total_hospitals resp = int (length rows)
            \<and> length (hospitals resp) = length rows
            \<and> processed_hospitals resp
                = int (length (filter (\<lambda>r. status r = ''created'') (hospitals resp)))
            \<and> failed_hospitals resp = int (length rows) - processed_hospitals resp
            \<and> failed_hospitals resp
                = int (length (filter (\<lambda>r. status r \<noteq> ''created'') (hospitals resp)))
            \<and> processed_hospitals resp + failed_hospitals resp = total_hospitals resp)"
proof (intro conjI impI allI)
  assume "0 < CONCURRENCY cfg"
  then show "\<exists>resp reg' calls.
      bulk_upload cfg lib e uuid4 filename file_bytes reg = Some (Inr resp, reg', calls)"
    using bulk_upload_returns [OF assms] by blast
next
  fix resp reg' calls
  assume run: "bulk_upload cfg lib e uuid4 filename file_bytes reg = Some (Inr resp, reg', calls)"
  obtain results activated elapsed
    where pr: "process_rows cfg e rows uuid4 = Some (Inr (results, activated, elapsed), calls)"
      and resp: "resp = \<lparr> batch_id = uuid4,
                    total_hospitals = int (length rows),
                    processed_hospitals =
                      int (length (filter (\<lambda>r. status r = ''created'') results)),
                    failed_hospitals = int (length rows)
                      - int (length (filter (\<lambda>r. status r = ''created'') results)),
                    processing_time_seconds = elapsed,
                    batch_activated = activated,
                    hospitals = results \<rparr>"
    using bulk_upload_response [OF assms run] by blast
  have len: "length results = length rows"
    using pr by (rule length_results)
  have "length (filter (\<lambda>r. status r = ''created'') results)
          + length (filter (\<lambda>r. status r \<noteq> ''created'') results) = length results"
    using sum_length_filter_compl [of "\<lambda>r. status r = ''created''" results] by simp
  then have others:
    "int (length rows) - int (length (filter (\<lambda>r. status r = ''created'') results))
       = int (length (filter (\<lambda>r. status r \<noteq> ''created'') results))"
    using len by linarith
  show "total_hospitals resp = int (length rows)"
    by (simp add: resp)
  show "length (hospitals resp) = length rows"
    by (simp add: resp len)
  show "processed_hospitals resp
          = int (length (filter (\<lambda>r. status r = ''created'') (hospitals resp)))"
    by (simp add: resp)
  show "failed_hospitals resp = int (length rows) - processed_hospitals resp"
    by (simp add: resp)
  show "failed_hospitals resp
          = int (length (filter (\<lambda>r. status r \<noteq> ''created'') (hospitals resp)))"
    using others by (simp add: resp)
  show "processed_hospitals resp + failed_hospitals resp = total_hospitals resp"
    by (simp add: resp)
qed

theorem bulk_upload_counts_witness:
  "py_endswith (py_lower ''Hospitals.CSV'') ''.csv''
   \<and> parse_csv_bytes example_lib example_text = Inr example_rows
   \<and> 1 \<le> length example_rows
   \<and> int (length example_rows) \<le> MAX_CSV_ROWS settings
   \<and> 0 < CONCURRENCY settings
   \<and> (\<exists>resp reg' calls.
         bulk_upload settings example_lib env_up ''b1'' ''Hospitals.CSV'' example_text Map.empty
           = Some (Inr resp, reg', calls)
       \<and> total_hospitals resp = 3
       \<and> processed_hospitals resp = 2
       \<and> failed_hospitals resp = 1
       \<and> processed_hospitals resp + failed_hospitals resp = total_hospitals resp)"
proof -
  have gates: "1 \<le> length example_rows" "int (length example_rows) \<le> MAX_CSV_ROWS settings"
    by (simp_all add: example_rows_def settings_def)
  have ceiling: "0 < CONCURRENCY settings"
    by (simp add: settings_def)
  obtain resp reg' calls where
    run: "bulk_upload settings example_lib env_up ''b1'' ''Hospitals.CSV'' example_text Map.empty
            = Some (Inr resp, reg', calls)"
    using bulk_upload_counts [OF csv_suffix parse_example gates, of env_up "''b1''" Map.empty]
      ceiling by blast
  have "total_hospitals resp = int (length example_rows)
      \<and> processed_hospitals resp + failed_hospitals resp = total_hospitals resp"
    using bulk_upload_counts [OF csv_suffix parse_example gates, of env_up "''b1''" Map.empty]
      run by blast
  moreover have "processed_hospitals resp = 2"
    using run by (auto simp: bulk_upload_env_up)
  ultimately show ?thesis
    using csv_suffix parse_example gates ceiling run
    by (auto simp: example_rows_def)
qed

text \<open>
  C7. Every upload that passes the gates and returns a response has saved exactly one
  batch, under the batch id of the call and with the ids of the created outcomes,
  whatever their number: the list is empty when no row was created. The batch is then
  in the registry: \<^verbatim>\<open>get\<close> returns its list (the empty list for an empty batch),
  \<^verbatim>\<open>remove\<close> returns true, and no other entry of the registry has changed. Under a
  positive ceiling the upload does return a response.
\<close>

theorem bulk_upload_registers_batch:
  assumes "py_endswith (py_lower filename) ''.csv''"
    and "parse_csv_bytes lib file_bytes = Inr rows"
    and "1 \<le> length rows" and "int (length rows) \<le> MAX_CSV_ROWS cfg"
  shows "(0 < CONCURRENCY cfg \<longrightarrow>
            (\<exists>resp reg' calls.
               bulk_upload cfg lib e uuid4 filename file_bytes reg = Some (Inr resp, reg', calls)))
       \<and> (\<forall>resp reg' calls.
            bulk_upload cfg lib e uuid4 filename file_bytes reg = Some (Inr resp, reg', calls) \<longrightarrow>
              batch_id resp = uuid4
            \<and> reg' = save_batch uuid4
                       (map hospital_id
                          (filter (\<lambda>r. status r = ''created'') (hospitals resp))) reg
            \<and> get_batch uuid4 reg'
                = Some (map hospital_id
                          (filter (\<lambda>r. status r = ''created'') (hospitals resp)))
            \<and> fst (remove_batch uuid4 reg') = True
            \<and> (\<forall>j. j \<noteq> uuid4 \<longrightarrow> get_batch j reg' = get_batch j reg)
            \<and> (processed_hospitals resp = 0 \<longrightarrow> get_batch uuid4 reg' = Some []))"
proof (intro conjI impI allI)
  assume "0 < CONCURRENCY cfg"
  then show "\<exists>resp reg' calls.
      bulk_upload cfg lib e uuid4 filename file_bytes reg = Some (Inr resp, reg', calls)"
    using bulk_upload_returns [OF assms] by blast
next
  fix resp reg' calls
  assume run: "bulk_upload cfg lib e uuid4 filename file_bytes reg = Some (Inr resp, reg', calls)"
  obtain results activated elapsed
    where resp: "resp = \<lparr> batch_id = uuid4,
                    total_hospitals = int (length rows),
                    processed_hospitals =
                      int (length (filter (\<lambda>r. status r = ''created'') results)),
                    failed_hospitals = int (length rows)
                      - int (length (filter (\<lambda>r. status r = ''created'') results)),
                    processing_time_seconds = elapsed,
                    batch_activated = activated,
                    hospitals = results \<rparr>"
      and reg': "reg' = save_batch uuid4
                    (map hospital_id (filter (\<lambda>r. status r = ''created'') results)) reg"
    using bulk_upload_response [OF assms run] by blast
  show "batch_id resp = uuid4"
    by (simp add: resp)
  show saved: "reg' = save_batch uuid4
      (map hospital_id (filter (\<lambda>r. status r = ''created'') (hospitals resp))) reg"
    by (simp add: resp reg')
  show "get_batch uuid4 reg'
      = Some (map hospital_id (filter (\<lambda>r. status r = ''created'') (hospitals resp)))"
    by (simp add: saved get_batch_def save_batch_def)
  show "fst (remove_batch uuid4 reg') = True"
    by (simp add: saved remove_batch_def save_batch_def)
  show "get_batch j reg' = get_batch j reg" if "j \<noteq> uuid4" for j
    using that by (simp add: saved get_batch_def save_batch_def)
  show "get_batch uuid4 reg' = Some []" if "processed_hospitals resp = 0"
    using that by (simp add: resp reg' get_batch_def save_batch_def)
qed

theorem bulk_upload_registers_batch_witness:
  "0 < CONCURRENCY settings
   \<and> bulk_upload settings example_lib env_down ''b1'' ''Hospitals.CSV'' example_text Map.empty
     = Some (Inr \<lparr> batch_id = ''b1'', total_hospitals = 3, processed_hospitals = 0,
                   failed_hospitals = 3, processing_time_seconds = 2, batch_activated = False,
                   hospitals = outcomes_down \<rparr>,
             save_batch ''b1'' [] Map.empty, posts_down)
   \<and> get_batch ''b1'' (save_batch ''b1'' ([] :: json_value option list) Map.empty) = Some []
   \<and> fst (remove_batch ''b1'' (save_batch ''b1'' ([] :: json_value option list) Map.empty))"
proof -
  have gates: "1 \<le> length example_rows" "int (length example_rows) \<le> MAX_CSV_ROWS settings"
    by (simp_all add: example_rows_def settings_def)
  have ceiling: "0 < CONCURRENCY settings"
    by (simp add: settings_def)
  note saved = bulk_upload_registers_batch
      [OF csv_suffix parse_example gates, of env_down "''b1''" Map.empty,
       THEN conjunct2, rule_format, OF bulk_upload_env_down]
  have "fst (remove_batch ''b1'' (save_batch ''b1'' ([] :: json_value option list) Map.empty))"
    using saved by blast
  moreover
  have "get_batch ''b1'' (save_batch ''b1'' ([] :: json_value option list) Map.empty) = Some []"
    using saved [THEN conjunct2, THEN conjunct2, THEN conjunct2, THEN conjunct2] by simp
  ultimately show ?thesis
    using ceiling bulk_upload_env_down by simp
qed

section \<open>Properties of the parser\<close>

lemma code_points_nonempty: "[] \<notin> set (code_points s)"
  by (induction s rule: code_points.induct) auto

lemma concat_empty_iff: "[] \<notin> set ys \<Longrightarrow> concat ys = [] \<longleftrightarrow> ys = []"
  by (cases ys) auto

lemma strip_both_ends_empty_iff:
  "rev (dropWhile P (rev (dropWhile P xs))) = [] \<longleftrightarrow> (\<forall>x \<in> set xs. P x)"
proof
  assume "rev (dropWhile P (rev (dropWhile P xs))) = []"
  then have all_rest: "\<forall>x \<in> set (dropWhile P xs). P x"
    by simp
  have "dropWhile P xs = []"
  proof (rule ccontr)
    assume ne: "dropWhile P xs \<noteq> []"
    then have "\<not> P (hd (dropWhile P xs))"
      by (rule hd_dropWhile)
    moreover have "hd (dropWhile P xs) \<in> set (dropWhile P xs)"
      using ne by simp
    ultimately show False
      using all_rest by blast
  qed
  then show "\<forall>x \<in> set xs. P x"
    by (simp only: dropWhile_eq_Nil_conv)
next
  assume "\<forall>x \<in> set xs. P x"
  then have "dropWhile P xs = []"
    by (simp only: dropWhile_eq_Nil_conv)
  then show "rev (dropWhile P (rev (dropWhile P xs))) = []"
    by (simp del: dropWhile_eq_Nil_conv)
qed

lemma py_strip_empty_iff: "py_strip c = [] \<longleftrightarrow> whitespace_only c"
proof -
  let ?kept = "rev (dropWhile py_isspace (rev (dropWhile py_isspace (code_points c))))"
  have "set ?kept \<subseteq> set (code_points c)"
  proof
    fix x
    assume "x \<in> set ?kept"
    then have "x \<in> set (rev (dropWhile py_isspace (code_points c)))"
      by (auto dest: set_dropWhileD)
    then show "x \<in> set (code_points c)"
      by (auto dest: set_dropWhileD)
  qed
  then have "[] \<notin> set ?kept"
    using code_points_nonempty [of c] by blast
  then have "py_strip c = [] \<longleftrightarrow> ?kept = []"
    unfolding py_strip_def by (rule concat_empty_iff)
  also have "\<dots> \<longleftrightarrow> (\<forall>x \<in> set (code_points c). py_isspace x)"
    by (rule strip_both_ends_empty_iff)
  finally show ?thesis
    by (simp add: whitespace_only_def list_all_iff)
qed

lemma is_blank_spec: "is_blank r = spec_skipped r"
  by (cases r) (simp_all add: is_blank_def spec_skipped_def py_strip_empty_iff)

lemma to_row_spec: "to_row r = spec_request r"
  by (simp add: to_row_def spec_request_def spec_cell_def)

lemma is_header_spec: "is_header recs = spec_is_header recs"
  by (simp add: is_header_def spec_is_header_def split: list.splits)

lemma parse_loop_filter:
  "parse_loop recs parsed = parsed @ map to_row (filter (\<lambda>r. \<not> is_blank r) recs)"
  by (induction recs arbitrary: parsed) simp_all

lemma parse_records_spec: "parse_records recs = spec_parse recs"
  by (simp add: parse_records_def spec_parse_def drop_header_def parse_loop_filter
        is_blank_spec to_row_spec is_header_spec)

text \<open>
  C8. The claim: for every upload that decodes, the parser returns the requests and
  does not fail. The code at the upload \<open>bare_cr_text\<close> (the letter A, a carriage
  return, \<^verbatim>\<open>B,Addr\<close> and a line feed): the bytes decode,
  \<^verbatim>\<open>csv.reader\<close> raises, and lines 16-18 of the source have no handler, so the
  parser raises the reader's error. (The wording of the message is that of recent
  versions of Python.)
\<close>

theorem parse_csv_bytes_bare_cr_counterexample:
  "decode_utf_8_sig bare_cr_lib bare_cr_text = Inr bare_cr_text
   \<and> parse_csv_bytes bare_cr_lib bare_cr_text = Inl (Exception csv_newline_error)"
  by (simp add: parse_csv_bytes_def bare_cr_lib_def)

text \<open>
  C8, amended. For every upload that decodes: when \<^verbatim>\<open>csv.reader\<close> splits the text
  into records, the parser returns the requests the specification describes: the first
  record is dropped exactly when its first cell, trimmed and lower-cased, is
  \<^verbatim>\<open>name\<close>; the records whose cells are all empty or whitespace-only are skipped;
  each retained record gives its trimmed cell 0 as name, its trimmed cell 1 or the empty
  string as address, its trimmed cell 2 or nothing as phone; no records and a header
  alone give the empty sequence, and no content of the cells makes the parser raise.
  When \<^verbatim>\<open>csv.reader\<close> raises, the parser raises that error.
\<close>

theorem parse_csv_bytes_spec:
  assumes "decode_utf_8_sig lib file_bytes = Inr txt"
  shows "(\<forall>recs. csv_reader lib txt = Inr recs \<longrightarrow>
            parse_csv_bytes lib file_bytes = Inr (spec_parse recs)
          \<and> (recs = [] \<longrightarrow> parse_csv_bytes lib file_bytes = Inr [])
          \<and> (length recs = 1 \<and> spec_is_header recs \<longrightarrow>
                parse_csv_bytes lib file_bytes = Inr []))
       \<and> (\<forall>ex. csv_reader lib txt = Inl ex \<longrightarrow> parse_csv_bytes lib file_bytes = Inl ex)"
proof (intro conjI allI impI)
  fix recs
  assume rd: "csv_reader lib txt = Inr recs"
  show eq: "parse_csv_bytes lib file_bytes = Inr (spec_parse recs)"
    using assms rd by (simp add: parse_csv_bytes_def parse_records_spec)
  show "parse_csv_bytes lib file_bytes = Inr []" if "recs = []"
    using eq that by (simp add: spec_parse_def)
  show "parse_csv_bytes lib file_bytes = Inr []" if "length recs = 1 \<and> spec_is_header recs"
  proof -
    from that obtain h where "recs = [h]"
      by (cases recs) auto
    then have "spec_parse recs = []"
      using that by (simp add: spec_parse_def)
    then show ?thesis
      using eq by simp
  qed
next
  fix ex
  assume "csv_reader lib txt = Inl ex"
  then show "parse_csv_bytes lib file_bytes = Inl ex"
    using assms by (simp add: parse_csv_bytes_def)
qed

theorem parse_csv_bytes_spec_witness:
  "decode_utf_8_sig example_lib example_text = Inr example_text
   \<and> csv_reader example_lib example_text = Inr example_records
   \<and> spec_is_header example_records
   \<and> parse_csv_bytes example_lib example_text = Inr example_rows
   \<and> decode_utf_8_sig bare_cr_lib bare_cr_text = Inr bare_cr_text
   \<and> csv_reader bare_cr_lib bare_cr_text = Inl (Exception csv_newline_error)
   \<and> parse_csv_bytes bare_cr_lib bare_cr_text = Inl (Exception csv_newline_error)"
proof -
  have dec: "decode_utf_8_sig example_lib example_text = Inr example_text"
    and rd: "csv_reader example_lib example_text = Inr example_records"
    by (simp_all add: example_lib_def)
  have dec_cr: "decode_utf_8_sig bare_cr_lib bare_cr_text = Inr bare_cr_text"
    and rd_cr: "csv_reader bare_cr_lib bare_cr_text = Inl (Exception csv_newline_error)"
    by (simp_all add: bare_cr_lib_def)
  have "parse_csv_bytes example_lib example_text = Inr (spec_parse example_records)"
    using parse_csv_bytes_spec [OF dec] rd by blast
  moreover have "spec_is_header example_records"
    by (simp add: spec_is_header_def example_records_def str_simps)
  moreover have "parse_csv_bytes bare_cr_lib bare_cr_text = Inl (Exception csv_newline_error)"
    using parse_csv_bytes_spec [OF dec_cr] rd_cr by blast
  ultimately show ?thesis
    using dec rd dec_cr rd_cr parse_example by simp
qed

section \<open>Properties of the batch endpoints\<close>

text \<open>
  C10. For every batch id saved with an empty list, \<^verbatim>\<open>batch_details\<close> and
  \<^verbatim>\<open>delete_batch\<close> raise 404 \<^verbatim>\<open>Batch not found\<close>, issue no remote call and leave
  the registry as it was, so the batch is still registered after the delete request;
  they answer an id that is not in the registry in the same way.
\<close>

theorem empty_batch_not_found:
  "batch_details cfg get_reply bid (save_batch bid [] reg)
     = (Inl (HTTPException 404 ''Batch not found''), save_batch bid [] reg, [])
   \<and> delete_batch cfg delete_reply bid (save_batch bid [] reg)
     = (Inl (HTTPException 404 ''Batch not found''), save_batch bid [] reg, [])
   \<and> get_batch bid (fst (snd (delete_batch cfg delete_reply bid (save_batch bid [] reg))))
     = Some []
   \<and> (get_batch bid reg = None \<longrightarrow>
        batch_details cfg get_reply bid reg
          = (Inl (HTTPException 404 ''Batch not found''), reg, [])
      \<and> delete_batch cfg delete_reply bid reg
          = (Inl (HTTPException 404 ''Batch not found''), reg, []))"
  by (simp add: batch_details_def delete_batch_def get_batch_def save_batch_def)

theorem empty_batch_not_found_witness:
  "get_batch ''b2'' (save_batch ''b1'' [] Map.empty :: registry) = None
   \<and> batch_details settings (\<lambda>hid. reply_created 101) ''b2'' (save_batch ''b1'' [] Map.empty)
       = (Inl (HTTPException 404 ''Batch not found''), save_batch ''b1'' [] Map.empty, [])
   \<and> batch_details settings (\<lambda>hid. reply_created 101) ''b1'' (save_batch ''b1'' [] Map.empty)
       = (Inl (HTTPException 404 ''Batch not found''), save_batch ''b1'' [] Map.empty, [])
   \<and> delete_batch settings (\<lambda>hid. reply_status 204 []) ''b1'' (save_batch ''b1'' [] Map.empty)
       = (Inl (HTTPException 404 ''Batch not found''), save_batch ''b1'' [] Map.empty, [])"
  using empty_batch_not_found
          [of settings "\<lambda>hid. reply_created 101" "''b1''" Map.empty "\<lambda>hid. reply_status 204 []"]
    empty_batch_not_found
          [of settings "\<lambda>hid. reply_created 101" "''b2''" "save_batch ''b1'' [] Map.empty"
              "\<lambda>hid. reply_status 204 []"]
  by (simp add: get_batch_def save_batch_def)

end
